theory Spec2Isabelle
  imports Main "HOL-Library.AList" "HOL-Library.Multiset"
begin

section \<open>The API token store: rows, tokens and the row aggregation\<close>

text \<open>
  The store lives in the second document of
  \<^verbatim>\<open>src/frontend/src/hooks/api/getters/useFeatureSearch/useFeatureSearch.ts\<close>
  (lines 60-291). It reads three tables through a query builder, folds the flat rows of a
  double left join into one token per secret (\<^verbatim>\<open>tokenRowReducer\<close>, \<^verbatim>\<open>toTokens\<close>)
  and writes tokens with their project and environment links inside one transaction.

  Conventions of the embedding:
  \<^item> a \<^verbatim>\<open>Date\<close> is an integer (milliseconds since the epoch);
  \<^item> a column that a left join may leave \<^verbatim>\<open>NULL\<close>, or a property that may be
    \<^verbatim>\<open>undefined\<close>, is an \<open>option\<close>;
  \<^item> \<^verbatim>\<open>ApiTokenType\<close> is a string enum at run time, so \<^verbatim>\<open>type\<close> is a string;
  \<^item> the accumulator \<^verbatim>\<open>acc\<close> of the reducer is a plain object used as a dictionary
    from secrets to tokens: an association list in insertion order. Secrets are taken to
    be dictionary keys proper: names that a plain object inherits from
    \<^verbatim>\<open>Object.prototype\<close> (such as \<^verbatim>\<open>constructor\<close>) are outside the model.
\<close>

type_synonym Date = int

text \<open>Line 79, \<^verbatim>\<open>const ALL = '*'\<close> (\<open>ALL\<close> is a binder of HOL, hence the prime).\<close>

definition ALL' :: string where
  "ALL' = ''*''"

text \<open>
  The object literal that \<^verbatim>\<open>toRow\<close> builds (lines 129-137): the column values
  handed to the insert into \<^verbatim>\<open>api_tokens\<close>.
\<close>

record InsertRow =
  username :: string
  secret :: string
  type :: string
  environment :: "string list option"
  expires_at :: "Date option"

text \<open>
  \<^verbatim>\<open>interface ITokenInsert\<close> (line 81), the columns of table \<^verbatim>\<open>api_tokens\<close>. The
  interface also declares \<^verbatim>\<open>id\<close>, which \<^verbatim>\<open>toRow\<close> never writes and the select
  list of \<^verbatim>\<open>makeTokenProjectQuery\<close> never reads; it is left out.
\<close>

record ITokenInsert =
  secret :: string
  username :: string
  type :: string
  expires_at :: "Date option"
  created_at :: Date
  seen_at :: "Date option"

text \<open>\<^verbatim>\<open>interface ITokenRow extends ITokenInsert\<close> (line 91): one row of the join.\<close>

record ITokenRow = ITokenInsert +
  project :: "string option"
  environment :: "string option"

text \<open>
  \<^verbatim>\<open>IApiTokenCreate\<close>, the token-creation request, with the properties that
  \<^verbatim>\<open>toRow\<close> and \<^verbatim>\<open>insert\<close> read. Both lists may be undefined
  (\<^verbatim>\<open>newToken.projects || []\<close>, \<^verbatim>\<open>newToken.projects?.join\<close>).
\<close>

record IApiTokenCreate =
  secret :: string
  username :: string
  type :: string
  projects :: "string list option"
  environments :: "string list option"
  expiresAt :: "Date option"

text \<open>
  What \<^verbatim>\<open>insert\<close> returns (lines 236-241): the request spread into a new object,
  with the two joined strings and the creation time of the stored row.
\<close>

record InsertedToken = IApiTokenCreate +
  project :: string
  environment :: string
  createdAt :: Date

text \<open>
  \<^verbatim>\<open>IApiToken\<close>, the aggregated token, with the properties that the reducer
  writes (lines 99-109).
\<close>

record IApiToken =
  secret :: string
  username :: string
  type :: string
  project :: string
  projects :: "string list"
  environment :: string
  environments :: "string list"
  expiresAt :: "Date option"
  createdAt :: Date

subsection \<open>JavaScript helpers\<close>

text \<open>
  \<^verbatim>\<open>if (tokenRow.project)\<close>: \<^verbatim>\<open>null\<close>, \<^verbatim>\<open>undefined\<close> and the empty string are
  falsy, every other string is truthy.
\<close>

fun truthy :: "string option \<Rightarrow> bool" where
  "truthy None = False"
| "truthy (Some s) = (s \<noteq> [])"

text \<open>\<^verbatim>\<open>Array.prototype.join(sep)\<close> on an array of strings.\<close>

fun join :: "string \<Rightarrow> string list \<Rightarrow> string" where
  "join sep [] = []"
| "join sep [x] = x"
| "join sep (x # y # ys) = x @ sep @ join sep (y # ys)"

text \<open>
  Modelled from the spec: \<^verbatim>\<open>isAll\<close> is imported from
  \<^verbatim>\<open>../types/models/api-token\<close>, which is not among the sources. The specification
  calls a list the wildcard when it is exactly \<open>{ALL}\<close>: the one-element list holding
  the sentinel.
\<close>

definition isAll :: "string list \<Rightarrow> bool" where
  "isAll values = (values = [ALL'])"

subsection \<open>The row aggregation\<close>

text \<open>Lines 99-109: the entry seeded for a secret that the accumulator does not hold.\<close>

definition seedToken :: "'a ITokenRow_scheme \<Rightarrow> IApiToken" where
  "seedToken tokenRow =
     \<lparr> IApiToken.secret = ITokenInsert.secret tokenRow,
       username = ITokenInsert.username tokenRow,
       type = ITokenInsert.type tokenRow,
       project = ALL',
       projects = [ALL'],
       environment = ALL',
       environments = [ALL'],
       expiresAt = expires_at tokenRow,
       createdAt = created_at tokenRow \<rparr>"

text \<open>
  Lines 112-118: a truthy project of the row is pushed onto the current token, after the
  wildcard default has been cleared, and the joined string is recomputed.
\<close>

fun addProject :: "IApiToken \<Rightarrow> string option \<Rightarrow> IApiToken" where
  "addProject currentToken None = currentToken"
| "addProject currentToken (Some p) =
     (if truthy (Some p) then
        (let ps = (if isAll (projects currentToken) then [] else projects currentToken) @ [p]
         in currentToken\<lparr> projects := ps, project := join '','' ps \<rparr>)
      else currentToken)"

text \<open>Lines 119-125: the same for the environment.\<close>

fun addEnvironment :: "IApiToken \<Rightarrow> string option \<Rightarrow> IApiToken" where
  "addEnvironment currentToken None = currentToken"
| "addEnvironment currentToken (Some e) =
     (if truthy (Some e) then
        (let es = (if isAll (environments currentToken) then [] else environments currentToken) @ [e]
         in currentToken\<lparr> environments := es, environment := join '','' es \<rparr>)
      else currentToken)"

text \<open>
  Lines 96-127. The entry of the row's secret is seeded when absent, then updated in
  place; a new key goes to the end of the dictionary (\<open>AList.update\<close> replaces the value
  of a key that is present and appends a key that is not).
\<close>

definition tokenRowReducer ::
  "(string \<times> IApiToken) list \<Rightarrow> 'a ITokenRow_scheme \<Rightarrow> (string \<times> IApiToken) list" where
  "tokenRowReducer acc tokenRow =
     (let currentToken =
            (case map_of acc (ITokenInsert.secret tokenRow) of
               None \<Rightarrow> seedToken tokenRow
             | Some t \<Rightarrow> t)
      in AList.update (ITokenInsert.secret tokenRow)
           (addEnvironment (addProject currentToken (ITokenRow.project tokenRow))
              (ITokenRow.environment tokenRow))
           acc)"

text \<open>
  \<^verbatim>\<open>Object.values\<close> lists the values of the own properties of an object: first the keys
  that are array indices (canonical decimal numerals below \<open>2\<^sup>3\<^sup>2 - 1\<close>) in ascending
  numeric order, then every other key in insertion order.
\<close>

definition isDigit :: "char \<Rightarrow> bool" where
  "isDigit c = (48 \<le> (of_char c :: int) \<and> (of_char c :: int) \<le> 57)"

definition indexValue :: "string \<Rightarrow> int" where
  "indexValue k = foldl (\<lambda>n c. 10 * n + (of_char c - 48)) 0 k"

definition isArrayIndex :: "string \<Rightarrow> bool" where
  "isArrayIndex k =
     (k \<noteq> [] \<and> list_all isDigit k \<and> (k = ''0'' \<or> hd k \<noteq> CHR ''0'')
      \<and> indexValue k < 4294967295)"

definition Object_values :: "(string \<times> 'v) list \<Rightarrow> 'v list" where
  "Object_values obj =
     map snd (sort_key (\<lambda>kv. indexValue (fst kv)) (filter (\<lambda>kv. isArrayIndex (fst kv)) obj))
     @ map snd (filter (\<lambda>kv. \<not> isArrayIndex (fst kv)) obj)"

text \<open>Lines 139-142: \<^verbatim>\<open>rows.reduce(tokenRowReducer, {})\<close> is a left fold.\<close>

definition toTokens :: "'a ITokenRow_scheme list \<Rightarrow> IApiToken list" where
  "toTokens rows = Object_values (foldl tokenRowReducer [] rows)"

section \<open>The token repository\<close>

text \<open>
  The storage is the relational database behind the query builder: table
  \<^verbatim>\<open>api_tokens\<close> and the two link tables \<^verbatim>\<open>api_token_project\<close> and
  \<^verbatim>\<open>api_token_environment\<close> (lines 75-77), each link a pair of a secret and a project
  or environment. Tables are lists in insertion order, and a query answers in that
  order.
\<close>

record Tables =
  api_tokens :: "ITokenInsert list"
  api_token_project :: "(string \<times> string) list"
  api_token_environment :: "(string \<times> string) list"

datatype error = NotFoundError | StorageError


text \<open>
  A left join on the secret: the linked values of the secret, or a single \<^verbatim>\<open>NULL\<close>
  when there is none.
\<close>

definition leftJoin :: "string \<Rightarrow> (string \<times> string) list \<Rightarrow> string option list" where
  "leftJoin s link =
     (case map snd (filter (\<lambda>l. fst l = s) link) of
        [] \<Rightarrow> [None]
      | v # vs \<Rightarrow> map Some (v # vs))"

definition joinedRow :: "ITokenInsert \<Rightarrow> string option \<Rightarrow> string option \<Rightarrow> ITokenRow" where
  "joinedRow t p e =
     \<lparr> ITokenInsert.secret = ITokenInsert.secret t,
       ITokenInsert.username = ITokenInsert.username t,
       ITokenInsert.type = ITokenInsert.type t,
       expires_at = expires_at t,
       created_at = created_at t,
       seen_at = seen_at t,
       ITokenRow.project = p,
       ITokenRow.environment = e \<rparr>"





text \<open>Lines 248-255.\<close>

definition exists :: "Tables \<Rightarrow> string \<Rightarrow> bool" where
  "exists db s = list_ex (\<lambda>t. ITokenInsert.secret t = s) (api_tokens db)"


subsection \<open>Writing\<close>

text \<open>Lines 129-137.\<close>

definition toRow :: "'a IApiTokenCreate_scheme \<Rightarrow> InsertRow" where
  "toRow newToken =
     \<lparr> InsertRow.username = IApiTokenCreate.username newToken,
       InsertRow.secret = IApiTokenCreate.secret newToken,
       InsertRow.type = IApiTokenCreate.type newToken,
       InsertRow.environment =
         (case IApiTokenCreate.environments newToken of
            None \<Rightarrow> None
          | Some es \<Rightarrow> if isAll es then None else Some es),
       InsertRow.expires_at = IApiTokenCreate.expiresAt newToken \<rparr>"

text \<open>
  The statements that \<^verbatim>\<open>insert\<close> sends: the insert of the token row (lines 209-212)
  and the two raw link inserts (lines 219-222 and 230-233).
\<close>

datatype statement =
  InsertToken InsertRow
| InsertProjectLink string string
| InsertEnvironmentLink string string

text \<open>
  The row that the storage keeps for an inserted token: \<^verbatim>\<open>created_at\<close> is the
  storage's default (its current time \<open>now\<close>), \<^verbatim>\<open>seen_at\<close> starts \<^verbatim>\<open>NULL\<close>. The
  \<^verbatim>\<open>environment\<close> value of \<^verbatim>\<open>toRow\<close> is not among the columns that the store
  ever reads back.
\<close>

definition storedRow :: "Date \<Rightarrow> InsertRow \<Rightarrow> ITokenInsert" where
  "storedRow now r =
     \<lparr> ITokenInsert.secret = InsertRow.secret r,
       ITokenInsert.username = InsertRow.username r,
       ITokenInsert.type = InsertRow.type r,
       ITokenInsert.expires_at = InsertRow.expires_at r,
       created_at = now,
       seen_at = None \<rparr>"

fun applyStatement :: "Date \<Rightarrow> Tables \<Rightarrow> statement \<Rightarrow> Tables" where
  "applyStatement now db (InsertToken r) =
     db\<lparr> api_tokens := api_tokens db @ [storedRow now r] \<rparr>"
| "applyStatement now db (InsertProjectLink s p) =
     db\<lparr> api_token_project := api_token_project db @ [(s, p)] \<rparr>"
| "applyStatement now db (InsertEnvironmentLink s e) =
     db\<lparr> api_token_environment := api_token_environment db @ [(s, e)] \<rparr>"

text \<open>
  The storage may reject a statement (a constraint violation, a lost connection): the
  predicate \<open>rejects\<close> says which statement it rejects in which state. A rejected
  statement changes nothing and raises a storage error.
\<close>

definition execute ::
  "(Tables \<Rightarrow> statement \<Rightarrow> bool) \<Rightarrow> Date \<Rightarrow> Tables \<Rightarrow> statement \<Rightarrow> error + Tables" where
  "execute rejects now db st =
     (if rejects db st then Inl StorageError else Inr (applyStatement now db st))"

text \<open>
  \<^verbatim>\<open>await Promise.all(tasks)\<close> over statements of one transaction: they run on its
  connection in the order in which \<^verbatim>\<open>map\<close> issued them, and the first rejection
  rejects the whole.
\<close>

fun executeAll ::
  "(Tables \<Rightarrow> statement \<Rightarrow> bool) \<Rightarrow> Date \<Rightarrow> Tables \<Rightarrow> statement list \<Rightarrow> error + Tables" where
  "executeAll rejects now db [] = Inr db"
| "executeAll rejects now db (st # sts) =
     (case execute rejects now db st of
        Inl e \<Rightarrow> Inl e
      | Inr db' \<Rightarrow> executeAll rejects now db' sts)"

text \<open>
  \<^verbatim>\<open>this.db.transaction(handler)\<close>: the handler works on the transaction's view of the
  tables; when it returns, its writes are committed, and when it throws, they are rolled
  back and the error is passed on.
\<close>

definition transaction ::
  "(Tables \<Rightarrow> error + (Tables \<times> 'r)) \<Rightarrow> Tables \<Rightarrow> (error + 'r) \<times> Tables" where
  "transaction handler db =
     (case handler db of
        Inl e \<Rightarrow> (Inl e, db)
      | Inr (db', r) \<Rightarrow> (Inr r, db'))"

text \<open>\<^verbatim>\<open>xs?.join(',') || '*'\<close> (lines 238-239).\<close>

definition joinedOrStar :: "string list option \<Rightarrow> string" where
  "joinedOrStar xs =
     (case xs of
        None \<Rightarrow> ''*''
      | Some ys \<Rightarrow> if join '','' ys = [] then ''*'' else join '','' ys)"

text \<open>\<^verbatim>\<open>xs || []\<close> (lines 214 and 225).\<close>

fun orEmpty :: "'a list option \<Rightarrow> 'a list" where
  "orEmpty None = []"
| "orEmpty (Some xs) = xs"

text \<open>
  Lines 207-244. \<^verbatim>\<open>ALL_PROJECTS\<close> is imported from \<^verbatim>\<open>../util/constants\<close>, which is
  not among the sources: it is a parameter. The result is the returned promise (an error
  or the synthesized token) and the tables afterwards.
\<close>

definition insert' ::
  "string \<Rightarrow> (Tables \<Rightarrow> statement \<Rightarrow> bool) \<Rightarrow> Date \<Rightarrow> Tables \<Rightarrow> IApiTokenCreate
   \<Rightarrow> (error + InsertedToken) \<times> Tables" where
  "insert' ALL_PROJECTS rejects now db newToken =
     transaction (\<lambda>tx.
       case execute rejects now tx (InsertToken (toRow newToken)) of
         Inl e \<Rightarrow> Inl e
       | Inr tx1 \<Rightarrow>
          (let row = storedRow now (toRow newToken);
               updateProjectTasks =
                 map (InsertProjectLink (IApiTokenCreate.secret newToken))
                   (filter (\<lambda>project. project \<noteq> ALL_PROJECTS)
                      (orEmpty (IApiTokenCreate.projects newToken)))
           in case executeAll rejects now tx1 updateProjectTasks of
                Inl e \<Rightarrow> Inl e
              | Inr tx2 \<Rightarrow>
                 (let updateEnvironmentTasks =
                        map (InsertEnvironmentLink (IApiTokenCreate.secret newToken))
                          (filter (\<lambda>environment. environment \<noteq> ALL')
                             (orEmpty (IApiTokenCreate.environments newToken)))
                  in case executeAll rejects now tx2 updateEnvironmentTasks of
                       Inl e \<Rightarrow> Inl e
                     | Inr tx3 \<Rightarrow>
                        Inr (tx3,
                          IApiTokenCreate.extend newToken
                            (InsertedToken.fields
                               (joinedOrStar (IApiTokenCreate.projects newToken))
                               (joinedOrStar (IApiTokenCreate.environments newToken))
                               (created_at row))))))
       db"

text \<open>
  Lines 270-279. The update sets \<^verbatim>\<open>expires_at\<close> on the token rows of the secret
  (\<open>updateExpiresAt\<close> is what it does to one row) and returns the rows of the query it
  was built on; no row means \<^verbatim>\<open>NotFoundError\<close>.
\<close>

definition updateExpiresAt :: "string \<Rightarrow> Date \<Rightarrow> ITokenInsert \<Rightarrow> ITokenInsert" where
  "updateExpiresAt s expiresAt' t =
     (if ITokenInsert.secret t = s then t\<lparr> ITokenInsert.expires_at := Some expiresAt' \<rparr> else t)"


text \<open>
  Lines 281-290. The update of \<^verbatim>\<open>seen_at\<close> is whatever the storage does with it
  (the query selects on a column it calls \<^verbatim>\<open>secrets\<close>; whether the storage knows
  such a column is part of its behaviour): \<open>update\<close> answers with the new tables or with
  an error. The logger is a list of
  messages. The result is what the caller's \<^verbatim>\<open>await\<close> sees, then the tables and
  the log afterwards.
\<close>

definition markSeenAt ::
  "(Tables \<Rightarrow> string list \<Rightarrow> Date \<Rightarrow> error + Tables) \<Rightarrow> Date \<Rightarrow> Tables \<times> string list
   \<Rightarrow> string list \<Rightarrow> (error + unit) \<times> Tables \<times> string list" where
  "markSeenAt update now st secrets =
     (case update (fst st) secrets now of
        Inr db' \<Rightarrow> (Inr (), db', snd st)
      | Inl err \<Rightarrow> (Inr (), fst st, snd st @ [''Could not update lastSeen, error: '']))"

section \<open>Notions used in the statements\<close>

text \<open>The strings that a column value makes the reducer push: none when it is falsy.\<close>

fun carried :: "string option \<Rightarrow> string list" where
  "carried None = []"
| "carried (Some v) = (if v = [] then [] else [v])"

text \<open>
  The projects, and the environments, that the rows of a secret carry, in row order
  and with repetitions.
\<close>

definition projectsOf :: "string \<Rightarrow> 'a ITokenRow_scheme list \<Rightarrow> string list" where
  "projectsOf s rows =
     concat (map (\<lambda>r. carried (ITokenRow.project r))
       (filter (\<lambda>r. ITokenInsert.secret r = s) rows))"

definition environmentsOf :: "string \<Rightarrow> 'a ITokenRow_scheme list \<Rightarrow> string list" where
  "environmentsOf s rows =
     concat (map (\<lambda>r. carried (ITokenRow.environment r))
       (filter (\<lambda>r. ITokenInsert.secret r = s) rows))"

text \<open>What one row does to the token of its secret (lines 112-125).\<close>

definition addRow :: "IApiToken \<Rightarrow> 'a ITokenRow_scheme \<Rightarrow> IApiToken" where
  "addRow t r = addEnvironment (addProject t (ITokenRow.project r)) (ITokenRow.environment r)"

text \<open>
  The token of a secret, computed from the rows of that secret alone: seeded from the
  first of them and fed every one of them.
\<close>

definition tokenOf :: "string \<Rightarrow> 'a ITokenRow_scheme list \<Rightarrow> IApiToken option" where
  "tokenOf s rows =
     (case filter (\<lambda>r. ITokenInsert.secret r = s) rows of
        [] \<Rightarrow> None
      | r # rs \<Rightarrow> Some (foldl addRow (seedToken r) (r # rs)))"

text \<open>What lines 113-116 and 120-123 do to a list: clear the wildcard, then push.\<close>

definition push :: "string list \<Rightarrow> string \<Rightarrow> string list" where
  "push xs x = (if isAll xs then [] else xs) @ [x]"

text \<open>
  The distinct elements of a list in the order of their first occurrence; on the secrets
  of the rows, the order in which the reducer creates the keys of its accumulator.
\<close>

definition firstSeen :: "'a list \<Rightarrow> 'a list" where
  "firstSeen xs = foldl (\<lambda>ks k. if k \<in> set ks then ks else ks @ [k]) [] xs"

text \<open>A row for the examples: only the secret, the project and the environment vary.\<close>

definition exampleRow :: "string \<Rightarrow> string option \<Rightarrow> string option \<Rightarrow> ITokenRow" where
  "exampleRow s p e =
     \<lparr> ITokenInsert.secret = s,
       ITokenInsert.username = ''admin'',
       ITokenInsert.type = ''client'',
       expires_at = None,
       created_at = 0,
       seen_at = None,
       ITokenRow.project = p,
       ITokenRow.environment = e \<rparr>"

text \<open>
  The links that \<^verbatim>\<open>insert\<close> writes for a request (lines 214-217 and 225-228): the
  entries of its lists that are not the sentinel of their dimension.
\<close>

definition concreteProjects :: "string \<Rightarrow> 'a IApiTokenCreate_scheme \<Rightarrow> string list" where
  "concreteProjects ALL_PROJECTS newToken =
     filter (\<lambda>project. project \<noteq> ALL_PROJECTS) (orEmpty (IApiTokenCreate.projects newToken))"

definition concreteEnvironments :: "'a IApiTokenCreate_scheme \<Rightarrow> string list" where
  "concreteEnvironments newToken =
     filter (\<lambda>environment. environment \<noteq> ALL') (orEmpty (IApiTokenCreate.environments newToken))"

text \<open>The statements that \<^verbatim>\<open>insert\<close> sends for a request, in the order it sends them.\<close>

definition insertStatements :: "string \<Rightarrow> 'a IApiTokenCreate_scheme \<Rightarrow> statement list" where
  "insertStatements ALL_PROJECTS newToken =
     InsertToken (toRow newToken)
     # map (InsertProjectLink (IApiTokenCreate.secret newToken))
         (concreteProjects ALL_PROJECTS newToken)
     @ map (InsertEnvironmentLink (IApiTokenCreate.secret newToken))
         (concreteEnvironments newToken)"

text \<open>The rows that the join of \<^verbatim>\<open>makeTokenProjectQuery\<close> gives for one token row.\<close>

definition rowsOfToken :: "Tables \<Rightarrow> ITokenInsert \<Rightarrow> ITokenRow list" where
  "rowsOfToken db t =
     concat (map (\<lambda>p.
       map (\<lambda>e. joinedRow t p e) (leftJoin (ITokenInsert.secret t) (api_token_environment db)))
       (leftJoin (ITokenInsert.secret t) (api_token_project db)))"

text \<open>The column that a left join gives for the linked values of one secret.\<close>

definition linked :: "string list \<Rightarrow> string option list" where
  "linked vs = (case vs of [] \<Rightarrow> [None] | v # ws \<Rightarrow> map Some (v # ws))"

text \<open>Tables, a request and a stored token row for the examples.\<close>

definition emptyTables :: Tables where
  "emptyTables = \<lparr> api_tokens = [], api_token_project = [], api_token_environment = [] \<rparr>"

definition exampleRequest ::
  "string \<Rightarrow> string list option \<Rightarrow> string list option \<Rightarrow> IApiTokenCreate" where
  "exampleRequest s ps es =
     \<lparr> IApiTokenCreate.secret = s,
       IApiTokenCreate.username = ''admin'',
       IApiTokenCreate.type = ''client'',
       IApiTokenCreate.projects = ps,
       IApiTokenCreate.environments = es,
       IApiTokenCreate.expiresAt = None \<rparr>"


section \<open>The aggregation, secret by secret\<close>

lemma map_of_tokenRowReducer:
  "map_of (tokenRowReducer acc r) k =
     (if k = ITokenInsert.secret r
      then Some (addRow (case map_of acc k of None \<Rightarrow> seedToken r | Some t \<Rightarrow> t) r)
      else map_of acc k)"
  by (simp add: tokenRowReducer_def addRow_def update_conv')

lemma map_of_foldl_tokenRowReducer:
  "map_of (foldl tokenRowReducer acc rows) s =
     (case filter (\<lambda>r. ITokenInsert.secret r = s) rows of
        [] \<Rightarrow> map_of acc s
      | r # rs \<Rightarrow>
          Some (foldl addRow (case map_of acc s of None \<Rightarrow> seedToken r | Some t \<Rightarrow> t) (r # rs)))"
proof (induction rows arbitrary: acc)
  case Nil
  show ?case by simp
next
  case (Cons r rows)
  show ?case
    by (simp add: Cons.IH map_of_tokenRowReducer split: list.split)
qed

lemma map_of_foldl_empty:
  "map_of (foldl tokenRowReducer [] rows) s = tokenOf s rows"
  by (simp add: map_of_foldl_tokenRowReducer tokenOf_def split: list.split)

lemma distinct_keys_tokenRowReducer:
  "distinct (map fst acc) \<Longrightarrow> distinct (map fst (tokenRowReducer acc r))"
  by (simp add: tokenRowReducer_def distinct_update)

lemma distinct_keys_foldl:
  "distinct (map fst acc) \<Longrightarrow> distinct (map fst (foldl tokenRowReducer acc rows))"
  by (induction rows arbitrary: acc) (simp_all add: distinct_keys_tokenRowReducer)

lemma keys_tokenRowReducer:
  "fst ` set (tokenRowReducer acc r) = insert (ITokenInsert.secret r) (fst ` set acc)"
  by (simp add: tokenRowReducer_def dom_update)

lemma keys_foldl:
  "fst ` set (foldl tokenRowReducer acc rows) = fst ` set acc \<union> ITokenInsert.secret ` set rows"
  by (induction rows arbitrary: acc) (auto simp: keys_tokenRowReducer)

lemma secret_addProject [simp]: "IApiToken.secret (addProject t p) = IApiToken.secret t"
  by (cases p) (simp_all add: Let_def)

lemma secret_addEnvironment [simp]: "IApiToken.secret (addEnvironment t e) = IApiToken.secret t"
  by (cases e) (simp_all add: Let_def)

lemma secret_addRow [simp]: "IApiToken.secret (addRow t r) = IApiToken.secret t"
  by (simp add: addRow_def)

lemma secret_foldl_addRow [simp]: "IApiToken.secret (foldl addRow t rs) = IApiToken.secret t"
  by (induction rs arbitrary: t) simp_all

lemma tokenOf_secret: "tokenOf s rows = Some t \<Longrightarrow> IApiToken.secret t = s"
proof -
  assume a: "tokenOf s rows = Some t"
  then obtain r rs where f: "filter (\<lambda>r. ITokenInsert.secret r = s) rows = r # rs"
    and t: "t = foldl addRow (seedToken r) (r # rs)"
    by (auto simp: tokenOf_def split: list.splits)
  from f have "r \<in> set (filter (\<lambda>r. ITokenInsert.secret r = s) rows)" by simp
  then have "ITokenInsert.secret r = s" by simp
  with t show ?thesis by (simp add: seedToken_def)
qed


lemma mset_Object_values: "mset (Object_values obj) = mset (map snd obj)"
proof -
  have "mset (Object_values obj) =
          image_mset snd (filter_mset (\<lambda>kv. isArrayIndex (fst kv)) (mset obj))
          + image_mset snd (filter_mset (\<lambda>kv. \<not> isArrayIndex (fst kv)) (mset obj))"
    by (simp add: Object_values_def)
  also have "\<dots> = image_mset snd (mset obj)"
    by (metis image_mset_union multiset_partition)
  finally show ?thesis by simp
qed

lemma set_Object_values: "set (Object_values obj) = snd ` set obj"
  by (metis mset_Object_values set_map set_mset_mset)


lemma Object_values_single: "Object_values [kv] = [snd kv]"
  by (simp add: Object_values_def)

lemma toTokens_entries:
  "set (toTokens rows) = {t. tokenOf (IApiToken.secret t) rows = Some t}"
proof -
  let ?acc = "foldl tokenRowReducer [] rows"
  have d: "distinct (map fst ?acc)" by (simp add: distinct_keys_foldl)
  have "set (toTokens rows) = snd ` set ?acc"
    by (simp add: toTokens_def set_Object_values)
  also have "\<dots> = {t. \<exists>k. map_of ?acc k = Some t}"
    using d by (force simp: image_iff)
  also have "\<dots> = {t. tokenOf (IApiToken.secret t) rows = Some t}"
    by (auto simp: map_of_foldl_empty dest: tokenOf_secret)
  finally show ?thesis .
qed

lemma in_toTokens_iff:
  "t \<in> set (toTokens rows) \<longleftrightarrow> tokenOf (IApiToken.secret t) rows = Some t"
  by (simp add: toTokens_entries)


lemma tokenOf_Some_iff:
  "(\<exists>t. tokenOf s rows = Some t) \<longleftrightarrow> s \<in> ITokenInsert.secret ` set rows"
proof -
  have "(filter (\<lambda>r. ITokenInsert.secret r = s) rows \<noteq> []) \<longleftrightarrow> s \<in> ITokenInsert.secret ` set rows"
    by (auto simp: filter_empty_conv)
  then show ?thesis
    by (auto simp: tokenOf_def split: list.splits)
qed

lemma secrets_toTokens:
  "set (map IApiToken.secret (toTokens rows)) = ITokenInsert.secret ` set rows"
proof
  show "set (map IApiToken.secret (toTokens rows)) \<subseteq> ITokenInsert.secret ` set rows"
  proof
    fix s assume "s \<in> set (map IApiToken.secret (toTokens rows))"
    then obtain t where "tokenOf (IApiToken.secret t) rows = Some t" and "s = IApiToken.secret t"
      by (auto simp: toTokens_entries)
    then show "s \<in> ITokenInsert.secret ` set rows"
      using tokenOf_Some_iff [of s rows] by auto
  qed
next
  show "ITokenInsert.secret ` set rows \<subseteq> set (map IApiToken.secret (toTokens rows))"
  proof
    fix s assume "s \<in> ITokenInsert.secret ` set rows"
    then obtain t where t: "tokenOf s rows = Some t"
      using tokenOf_Some_iff [of s rows] by auto
    then have "IApiToken.secret t = s" by (rule tokenOf_secret)
    with t have "t \<in> set (toTokens rows)" by (simp add: toTokens_entries)
    with \<open>IApiToken.secret t = s\<close> show "s \<in> set (map IApiToken.secret (toTokens rows))"
      by force
  qed
qed



lemma projects_addEnvironment [simp]: "projects (addEnvironment t e) = projects t"
  by (cases e) (simp_all add: Let_def)

lemma environments_addProject [simp]: "environments (addProject t p) = environments t"
  by (cases p) (simp_all add: Let_def)

lemma projects_addProject: "projects (addProject t p) = foldl push (projects t) (carried p)"
  by (cases p) (simp_all add: Let_def push_def)

lemma environments_addEnvironment:
  "environments (addEnvironment t e) = foldl push (environments t) (carried e)"
  by (cases e) (simp_all add: Let_def push_def)

lemma projects_foldl_addRow:
  "projects (foldl addRow t rs) =
     foldl push (projects t) (concat (map (\<lambda>r. carried (ITokenRow.project r)) rs))"
  by (induction rs arbitrary: t) (simp_all add: addRow_def projects_addProject)

lemma environments_foldl_addRow:
  "environments (foldl addRow t rs) =
     foldl push (environments t) (concat (map (\<lambda>r. carried (ITokenRow.environment r)) rs))"
  by (induction rs arbitrary: t) (simp_all add: addRow_def environments_addEnvironment)

lemma foldl_push_concrete:
  "ALL' \<notin> set xs \<Longrightarrow>
     foldl push ys xs = (if xs = [] then ys else (if isAll ys then [] else ys) @ xs)"
proof (induction xs arbitrary: ys)
  case Nil
  show ?case by simp
next
  case (Cons x xs)
  from Cons.prems have "\<not> isAll (push ys x)"
    by (auto simp: push_def isAll_def)
  with Cons show ?case by (simp add: push_def)
qed



lemma tokenOf_projects:
  assumes "tokenOf s rows = Some t"
  shows "projects t = foldl push [ALL'] (projectsOf s rows)"
proof -
  from assms obtain r rs where f: "filter (\<lambda>r. ITokenInsert.secret r = s) rows = r # rs"
    and t: "t = foldl addRow (seedToken r) (r # rs)"
    by (auto simp: tokenOf_def split: list.splits)
  have "projects t =
          foldl push (projects (seedToken r)) (concat (map (\<lambda>r. carried (ITokenRow.project r)) (r # rs)))"
    unfolding t by (rule projects_foldl_addRow)
  then show ?thesis by (simp add: projectsOf_def f seedToken_def)
qed

lemma tokenOf_environments:
  assumes "tokenOf s rows = Some t"
  shows "environments t = foldl push [ALL'] (environmentsOf s rows)"
proof -
  from assms obtain r rs where f: "filter (\<lambda>r. ITokenInsert.secret r = s) rows = r # rs"
    and t: "t = foldl addRow (seedToken r) (r # rs)"
    by (auto simp: tokenOf_def split: list.splits)
  have "environments t =
          foldl push (environments (seedToken r))
            (concat (map (\<lambda>r. carried (ITokenRow.environment r)) (r # rs)))"
    unfolding t by (rule environments_foldl_addRow)
  then show ?thesis by (simp add: environmentsOf_def f seedToken_def)
qed


lemma foldl_push_wildcard_or_concrete:
  "ALL' \<notin> set xs \<Longrightarrow> foldl push [ALL'] xs = [ALL'] \<or> ALL' \<notin> set (foldl push [ALL'] xs)"
  by (simp add: foldl_push_concrete isAll_def)

lemma set_carried: "x \<in> set (carried p) \<Longrightarrow> p = Some x"
  by (cases p) (auto split: if_splits)


lemma set_projectsOf:
  "set (projectsOf s rows) \<subseteq> {p. \<exists>r\<in>set rows. ITokenInsert.secret r = s \<and> ITokenRow.project r = Some p}"
  by (auto simp: projectsOf_def dest: set_carried)

lemma set_environmentsOf:
  "set (environmentsOf s rows) \<subseteq> {e. \<exists>r\<in>set rows. ITokenInsert.secret r = s \<and> ITokenRow.environment r = Some e}"
  by (auto simp: environmentsOf_def dest: set_carried)

lemma set_projectsOf_eq:
  "set (projectsOf s rows) = (\<Union>r\<in>{r \<in> set rows. ITokenInsert.secret r = s}. set (carried (ITokenRow.project r)))"
  by (auto simp: projectsOf_def)

lemma set_environmentsOf_eq:
  "set (environmentsOf s rows) = (\<Union>r\<in>{r \<in> set rows. ITokenInsert.secret r = s}. set (carried (ITokenRow.environment r)))"
  by (auto simp: environmentsOf_def)

lemma keys_foldl_order:
  "map fst (foldl tokenRowReducer acc rows) =
     foldl (\<lambda>ks k. if k \<in> set ks then ks else ks @ [k]) (map fst acc) (map ITokenInsert.secret rows)"
proof (induction rows arbitrary: acc)
  case Nil
  show ?case by simp
next
  case (Cons r rows)
  have "map fst (tokenRowReducer acc r) =
          (if ITokenInsert.secret r \<in> set (map fst acc) then map fst acc
           else map fst acc @ [ITokenInsert.secret r])"
    by (simp add: tokenRowReducer_def update_keys)
  then show ?case by (simp add: Cons.IH)
qed

lemma keys_toTokens: "map fst (foldl tokenRowReducer [] rows) = firstSeen (map ITokenInsert.secret rows)"
  by (simp add: keys_foldl_order firstSeen_def)

lemma insort_key_map:
  "insort_key f (h x) (map h ys) = map h (insort_key (\<lambda>y. f (h y)) x ys)"
  by (induction ys) simp_all

lemma sort_key_map: "sort_key f (map h xs) = map h (sort_key (\<lambda>y. f (h y)) xs)"
  by (induction xs) (simp_all add: insort_key_map)

lemma Object_values_map:
  "Object_values (map (\<lambda>kv. (fst kv, g (snd kv))) obj) = map g (Object_values obj)"
  by (simp add: Object_values_def filter_map sort_key_map comp_def)

lemma toTokens_map:
  assumes "\<And>s t. tokenOf s rows = Some t \<Longrightarrow> g t = G s"
  shows "map g (toTokens rows) =
           Object_values (map (\<lambda>k. (k, G k)) (firstSeen (map ITokenInsert.secret rows)))"
proof -
  let ?acc = "foldl tokenRowReducer [] rows"
  have d: "distinct (map fst ?acc)" by (simp add: distinct_keys_foldl)
  have "map g (toTokens rows) = Object_values (map (\<lambda>kv. (fst kv, g (snd kv))) ?acc)"
    by (simp add: toTokens_def Object_values_map)
  also have "map (\<lambda>kv. (fst kv, g (snd kv))) ?acc = map (\<lambda>kv. (fst kv, G (fst kv))) ?acc"
  proof (rule map_cong [OF refl])
    fix kv assume "kv \<in> set ?acc"
    then have "map_of ?acc (fst kv) = Some (snd kv)" using d by simp
    then have "tokenOf (fst kv) rows = Some (snd kv)" by (simp add: map_of_foldl_empty)
    then show "(fst kv, g (snd kv)) = (fst kv, G (fst kv))" by (simp add: assms)
  qed
  also have "\<dots> = map (\<lambda>k. (k, G k)) (map fst ?acc)" by simp
  finally show ?thesis by (simp only: keys_toTokens)
qed


lemma tokenOf_wildcard_rule:
  assumes "tokenOf s rows = Some t"
  shows "ALL' \<notin> set (projectsOf s rows) \<Longrightarrow> projects t = [ALL'] \<or> ALL' \<notin> set (projects t)"
    and "ALL' \<notin> set (environmentsOf s rows) \<Longrightarrow>
           environments t = [ALL'] \<or> ALL' \<notin> set (environments t)"
  using assms
  by (simp_all add: tokenOf_projects tokenOf_environments foldl_push_wildcard_or_concrete)

lemma tokenOf_projects_concrete:
  assumes "tokenOf s rows = Some t" and "ALL' \<notin> set (projectsOf s rows)"
  shows "projects t = (if projectsOf s rows = [] then [ALL'] else projectsOf s rows)"
  using assms by (simp add: tokenOf_projects foldl_push_concrete isAll_def)

lemma tokenOf_environments_concrete:
  assumes "tokenOf s rows = Some t" and "ALL' \<notin> set (environmentsOf s rows)"
  shows "environments t = (if environmentsOf s rows = [] then [ALL'] else environmentsOf s rows)"
  using assms by (simp add: tokenOf_environments foldl_push_concrete isAll_def)

lemma projectsOf_set_cong: "set rows' = set rows \<Longrightarrow> set (projectsOf s rows') = set (projectsOf s rows)"
  by (simp add: set_projectsOf_eq)

lemma environmentsOf_set_cong:
  "set rows' = set rows \<Longrightarrow> set (environmentsOf s rows') = set (environmentsOf s rows)"
  by (simp add: set_environmentsOf_eq)

lemma set_wildcard_or: "set (if xs = [] then [w] else xs) = (if set xs = {} then {w} else set xs)"
  by simp








lemma frame_addRow:
  "IApiToken.username (addRow t r) = IApiToken.username t
   \<and> IApiToken.type (addRow t r) = IApiToken.type t
   \<and> IApiToken.expiresAt (addRow t r) = IApiToken.expiresAt t
   \<and> IApiToken.createdAt (addRow t r) = IApiToken.createdAt t"
  by (cases "ITokenRow.project r"; cases "ITokenRow.environment r") (simp_all add: addRow_def Let_def)

lemma frame_foldl_addRow:
  "IApiToken.username (foldl addRow t rs) = IApiToken.username t
   \<and> IApiToken.type (foldl addRow t rs) = IApiToken.type t
   \<and> IApiToken.expiresAt (foldl addRow t rs) = IApiToken.expiresAt t
   \<and> IApiToken.createdAt (foldl addRow t rs) = IApiToken.createdAt t"
  by (induction rs arbitrary: t) (simp_all add: frame_addRow)

lemma find_filter_head: "filter P xs = x # ys \<Longrightarrow> find P xs = Some x"
  by (induction xs) (auto split: if_splits)

lemma tokenOf_scalars:
  assumes "tokenOf s rows = Some t"
  shows "\<exists>r. find (\<lambda>r. ITokenInsert.secret r = s) rows = Some r
           \<and> IApiToken.secret t = ITokenInsert.secret r
           \<and> IApiToken.username t = ITokenInsert.username r
           \<and> IApiToken.type t = ITokenInsert.type r
           \<and> IApiToken.expiresAt t = ITokenInsert.expires_at r
           \<and> IApiToken.createdAt t = created_at r"
proof -
  from assms obtain r rs where f: "filter (\<lambda>r. ITokenInsert.secret r = s) rows = r # rs"
    and t: "t = foldl addRow (seedToken r) (r # rs)"
    by (auto simp: tokenOf_def split: list.splits)
  from f have "find (\<lambda>r. ITokenInsert.secret r = s) rows = Some r" by (rule find_filter_head)
  moreover have "IApiToken.secret t = ITokenInsert.secret r" unfolding t by (simp add: seedToken_def)
  moreover have "IApiToken.username t = ITokenInsert.username r
      \<and> IApiToken.type t = ITokenInsert.type r
      \<and> IApiToken.expiresAt t = ITokenInsert.expires_at r
      \<and> IApiToken.createdAt t = created_at r"
    unfolding t by (simp only: frame_foldl_addRow) (simp add: seedToken_def)
  ultimately show ?thesis by blast
qed

text \<open>The definitions that evaluate the aggregation on the example rows.\<close>

lemmas eval_toTokens =
  toTokens_def tokenRowReducer_def seedToken_def Object_values_def isArrayIndex_def
  isAll_def ALL'_def exampleRow_def isDigit_def Let_def

section \<open>Claims about the row aggregation\<close>




text \<open>
  Claim C3, as amended. When no row carries the wildcard \<open>*\<close> as its project, the
  \<open>projects\<close> list of every aggregated token is either exactly the wildcard alone or
  free of the wildcard; when no row carries \<open>*\<close> as its environment, the same holds
  of every \<open>environments\<close> list.
\<close>

theorem wildcard_alone_or_absent:
  "((\<forall>r\<in>set rows. ITokenRow.project r \<noteq> Some ALL') \<longrightarrow>
      (\<forall>t\<in>set (toTokens rows). projects t = [ALL'] \<or> ALL' \<notin> set (projects t)))
   \<and> ((\<forall>r\<in>set rows. ITokenRow.environment r \<noteq> Some ALL') \<longrightarrow>
      (\<forall>t\<in>set (toTokens rows). environments t = [ALL'] \<or> ALL' \<notin> set (environments t)))"
proof (intro conjI impI ballI)
  fix t assume a: "\<forall>r\<in>set rows. ITokenRow.project r \<noteq> Some ALL'" and t: "t \<in> set (toTokens rows)"
  from a have "ALL' \<notin> set (projectsOf (IApiToken.secret t) rows)"
    using set_projectsOf [of "IApiToken.secret t" rows] by auto
  moreover from t have "tokenOf (IApiToken.secret t) rows = Some t"
    by (simp add: in_toTokens_iff)
  ultimately show "projects t = [ALL'] \<or> ALL' \<notin> set (projects t)"
    by (simp add: tokenOf_wildcard_rule)
next
  fix t assume a: "\<forall>r\<in>set rows. ITokenRow.environment r \<noteq> Some ALL'" and t: "t \<in> set (toTokens rows)"
  from a have "ALL' \<notin> set (environmentsOf (IApiToken.secret t) rows)"
    using set_environmentsOf [of "IApiToken.secret t" rows] by auto
  moreover from t have "tokenOf (IApiToken.secret t) rows = Some t"
    by (simp add: in_toTokens_iff)
  ultimately show "environments t = [ALL'] \<or> ALL' \<notin> set (environments t)"
    by (simp add: tokenOf_wildcard_rule)
qed

text \<open>The theorem at three rows, none of which carries the wildcard.\<close>

theorem wildcard_alone_or_absent_witness:
  "list_all (\<lambda>r. ITokenRow.project r \<noteq> Some ALL' \<and> ITokenRow.environment r \<noteq> Some ALL')
     [exampleRow ''s1'' (Some ''p1'') None, exampleRow ''s1'' (Some ''p2'') None,
      exampleRow ''s2'' None (Some ''e1'')]
   \<and> list_all (\<lambda>t. (projects t = [ALL'] \<or> ALL' \<notin> set (projects t))
                  \<and> (environments t = [ALL'] \<or> ALL' \<notin> set (environments t)))
       (toTokens [exampleRow ''s1'' (Some ''p1'') None, exampleRow ''s1'' (Some ''p2'') None,
                  exampleRow ''s2'' None (Some ''e1'')])"
proof -
  let ?rows = "[exampleRow ''s1'' (Some ''p1'') None, exampleRow ''s1'' (Some ''p2'') None,
                exampleRow ''s2'' None (Some ''e1'')]"
  have h1: "\<forall>r\<in>set ?rows. ITokenRow.project r \<noteq> Some ALL'"
    by (simp add: exampleRow_def ALL'_def)
  have h2: "\<forall>r\<in>set ?rows. ITokenRow.environment r \<noteq> Some ALL'"
    by (simp add: exampleRow_def ALL'_def)
  from h1 h2 wildcard_alone_or_absent [of ?rows] show ?thesis
    by (simp add: list_all_iff)
qed

text \<open>
  Claim C3 as stated fails: a row that carries \<open>*\<close> as its project, after a row with
  project \<open>p1\<close>, leaves the wildcard beside a concrete project.
\<close>

theorem wildcard_beside_project_counterexample:
  "map projects (toTokens [exampleRow ''s1'' (Some ''p1'') None, exampleRow ''s1'' (Some ''*'') None])
   = [[''p1'', ''*'']]"
  by (simp add: eval_toTokens)

text \<open>
  Claim C9, as amended. Let \<open>rows'\<close> be a permutation of \<open>rows\<close>, and let no row carry
  the wildcard \<open>*\<close> as its project or as its environment. Then both aggregations produce
  tokens for the same secrets, and the two tokens of a secret have the same set of
  projects and the same set of environments. The order of the output depends on the
  rows only through the order in which the secrets are first encountered: two row
  sequences that meet the secrets in the same order list the secrets of their tokens in
  the same order (this part needs neither hypothesis).
\<close>

theorem membership_order_independent:
  assumes "mset rows' = mset rows"
    and "\<forall>r\<in>set rows. ITokenRow.project r \<noteq> Some ALL' \<and> ITokenRow.environment r \<noteq> Some ALL'"
  shows "set (map IApiToken.secret (toTokens rows')) = set (map IApiToken.secret (toTokens rows))
    \<and> (\<forall>t\<in>set (toTokens rows). \<forall>t'\<in>set (toTokens rows').
          IApiToken.secret t' = IApiToken.secret t \<longrightarrow>
          set (projects t') = set (projects t) \<and> set (environments t') = set (environments t))
    \<and> (firstSeen (map ITokenInsert.secret rows') = firstSeen (map ITokenInsert.secret rows) \<longrightarrow>
          map IApiToken.secret (toTokens rows') = map IApiToken.secret (toTokens rows))"
proof (intro conjI ballI impI)
  from assms(1) have s: "set rows' = set rows" by (rule mset_eq_setD)
  show "set (map IApiToken.secret (toTokens rows')) = set (map IApiToken.secret (toTokens rows))"
    by (simp only: secrets_toTokens s)
  {
    fix t t'
    assume t: "t \<in> set (toTokens rows)" and t': "t' \<in> set (toTokens rows')"
      and e: "IApiToken.secret t' = IApiToken.secret t"
    let ?s = "IApiToken.secret t"
    from t have a: "tokenOf ?s rows = Some t" by (simp add: in_toTokens_iff)
    from t' e have a': "tokenOf ?s rows' = Some t'" by (simp add: in_toTokens_iff)
    from assms(2) have n: "ALL' \<notin> set (projectsOf ?s rows)" "ALL' \<notin> set (environmentsOf ?s rows)"
      using set_projectsOf [of ?s rows] set_environmentsOf [of ?s rows] by auto
    from n have n': "ALL' \<notin> set (projectsOf ?s rows')" "ALL' \<notin> set (environmentsOf ?s rows')"
      by (simp_all only: projectsOf_set_cong [OF s] environmentsOf_set_cong [OF s] not_False_eq_True)
    have "set (projects t') = (if set (projectsOf ?s rows') = {} then {ALL'} else set (projectsOf ?s rows'))"
      by (simp only: tokenOf_projects_concrete [OF a' n'(1)] set_wildcard_or)
    also have "\<dots> = (if set (projectsOf ?s rows) = {} then {ALL'} else set (projectsOf ?s rows))"
      by (simp only: projectsOf_set_cong [OF s])
    also have "\<dots> = set (projects t)"
      by (simp only: tokenOf_projects_concrete [OF a n(1)] set_wildcard_or)
    finally show "set (projects t') = set (projects t)" .
    have "set (environments t') =
            (if set (environmentsOf ?s rows') = {} then {ALL'} else set (environmentsOf ?s rows'))"
      by (simp only: tokenOf_environments_concrete [OF a' n'(2)] set_wildcard_or)
    also have "\<dots> = (if set (environmentsOf ?s rows) = {} then {ALL'} else set (environmentsOf ?s rows))"
      by (simp only: environmentsOf_set_cong [OF s])
    also have "\<dots> = set (environments t)"
      by (simp only: tokenOf_environments_concrete [OF a n(2)] set_wildcard_or)
    finally show "set (environments t') = set (environments t)" .
  }
  assume f: "firstSeen (map ITokenInsert.secret rows') = firstSeen (map ITokenInsert.secret rows)"
  have "\<And>rs :: 'a ITokenRow_scheme list. map IApiToken.secret (toTokens rs) =
          Object_values (map (\<lambda>k. (k, k)) (firstSeen (map ITokenInsert.secret rs)))"
    by (rule toTokens_map) (rule tokenOf_secret)
  then show "map IApiToken.secret (toTokens rows') = map IApiToken.secret (toTokens rows)"
    by (simp only: f)
qed

text \<open>The theorem at two rows of one secret and their transposition.\<close>

theorem membership_order_independent_witness:
  "mset [exampleRow ''s1'' (Some ''p2'') (Some ''e1''), exampleRow ''s1'' (Some ''p1'') (Some ''e1'')]
     = mset [exampleRow ''s1'' (Some ''p1'') (Some ''e1''), exampleRow ''s1'' (Some ''p2'') (Some ''e1'')]
   \<and> list_all (\<lambda>t. list_all (\<lambda>t'. IApiToken.secret t' = IApiToken.secret t \<longrightarrow>
          set (projects t') = set (projects t) \<and> set (environments t') = set (environments t))
        (toTokens [exampleRow ''s1'' (Some ''p2'') (Some ''e1''), exampleRow ''s1'' (Some ''p1'') (Some ''e1'')]))
      (toTokens [exampleRow ''s1'' (Some ''p1'') (Some ''e1''), exampleRow ''s1'' (Some ''p2'') (Some ''e1'')])"
proof -
  let ?rows = "[exampleRow ''s1'' (Some ''p1'') (Some ''e1''), exampleRow ''s1'' (Some ''p2'') (Some ''e1'')]"
  let ?rows' = "[exampleRow ''s1'' (Some ''p2'') (Some ''e1''), exampleRow ''s1'' (Some ''p1'') (Some ''e1'')]"
  have h1: "mset ?rows' = mset ?rows" by (simp add: add_mset_commute)
  have h2: "\<forall>r\<in>set ?rows. ITokenRow.project r \<noteq> Some ALL' \<and> ITokenRow.environment r \<noteq> Some ALL'"
    by (simp add: exampleRow_def ALL'_def)
  from h1 membership_order_independent [OF h1 h2] show ?thesis
    by (simp only: list_all_iff) blast
qed


text \<open>
  Claim C9 as stated fails. The two row sequences are permutations of each other; the
  row that carries \<open>*\<close> as its project stays in the list when it comes second and is
  cleared away when it comes first, so the sets of projects differ.
\<close>

theorem membership_order_dependent_counterexample:
  "map projects (toTokens [exampleRow ''s1'' (Some ''p1'') None, exampleRow ''s1'' (Some ''*'') None])
     = [[''p1'', ''*'']]
   \<and> map projects (toTokens [exampleRow ''s1'' (Some ''*'') None, exampleRow ''s1'' (Some ''p1'') None])
     = [[''p1'']]"
  by (simp add: eval_toTokens)




text \<open>
  Claim C10. The secret, user name, type, expiry and creation time of an aggregated
  token are those of the first row of its secret. A later row of a secret that the
  accumulator already holds leaves these five fields of its token as they are, and
  leaves the tokens of all other secrets untouched.
\<close>

theorem scalars_from_first_row:
  "(\<forall>t\<in>set (toTokens rows).
      \<exists>r. find (\<lambda>r. ITokenInsert.secret r = IApiToken.secret t) rows = Some r
        \<and> IApiToken.secret t = ITokenInsert.secret r
        \<and> IApiToken.username t = ITokenInsert.username r
        \<and> IApiToken.type t = ITokenInsert.type r
        \<and> IApiToken.expiresAt t = ITokenInsert.expires_at r
        \<and> IApiToken.createdAt t = created_at r)
   \<and> (\<forall>t. map_of acc (ITokenInsert.secret row) = Some t \<longrightarrow>
        (\<exists>t'. map_of (tokenRowReducer acc row) (ITokenInsert.secret row) = Some t'
           \<and> IApiToken.secret t' = IApiToken.secret t
           \<and> IApiToken.username t' = IApiToken.username t
           \<and> IApiToken.type t' = IApiToken.type t
           \<and> IApiToken.expiresAt t' = IApiToken.expiresAt t
           \<and> IApiToken.createdAt t' = IApiToken.createdAt t))
   \<and> (\<forall>k. k \<noteq> ITokenInsert.secret row \<longrightarrow> map_of (tokenRowReducer acc row) k = map_of acc k)"
proof (intro conjI ballI allI impI)
  fix t assume "t \<in> set (toTokens rows)"
  then have "tokenOf (IApiToken.secret t) rows = Some t" by (simp add: in_toTokens_iff)
  then show "\<exists>r. find (\<lambda>r. ITokenInsert.secret r = IApiToken.secret t) rows = Some r
        \<and> IApiToken.secret t = ITokenInsert.secret r
        \<and> IApiToken.username t = ITokenInsert.username r
        \<and> IApiToken.type t = ITokenInsert.type r
        \<and> IApiToken.expiresAt t = ITokenInsert.expires_at r
        \<and> IApiToken.createdAt t = created_at r"
    by (rule tokenOf_scalars)
next
  fix t assume "map_of acc (ITokenInsert.secret row) = Some t"
  then have "map_of (tokenRowReducer acc row) (ITokenInsert.secret row) = Some (addRow t row)"
    by (simp add: map_of_tokenRowReducer)
  then show "\<exists>t'. map_of (tokenRowReducer acc row) (ITokenInsert.secret row) = Some t'
           \<and> IApiToken.secret t' = IApiToken.secret t
           \<and> IApiToken.username t' = IApiToken.username t
           \<and> IApiToken.type t' = IApiToken.type t
           \<and> IApiToken.expiresAt t' = IApiToken.expiresAt t
           \<and> IApiToken.createdAt t' = IApiToken.createdAt t"
    by (simp add: frame_addRow)
next
  fix k assume "k \<noteq> ITokenInsert.secret row"
  then show "map_of (tokenRowReducer acc row) k = map_of acc k"
    by (simp add: map_of_tokenRowReducer)
qed

text \<open>
  The theorem at two rows of one secret whose scalar columns differ: the token keeps
  those of the first row, in the fold and in the single step on the second row.
\<close>

theorem scalars_from_first_row_witness:
  "map (\<lambda>t. (IApiToken.secret t, IApiToken.username t, IApiToken.type t,
              IApiToken.expiresAt t, IApiToken.createdAt t, projects t))
     (toTokens
        [exampleRow ''s1'' (Some ''p1'') None,
         (exampleRow ''s1'' (Some ''p2'') None)
           \<lparr> ITokenInsert.username := ''other'', ITokenInsert.type := ''admin'',
             expires_at := Some 9, created_at := 7 \<rparr>])
   = [(''s1'', ''admin'', ''client'', None, 0, [''p1'', ''p2''])]
   \<and> map (\<lambda>kv. (fst kv, IApiToken.username (snd kv), IApiToken.createdAt (snd kv)))
       (tokenRowReducer (tokenRowReducer [] (exampleRow ''s1'' (Some ''p1'') None))
          ((exampleRow ''s1'' (Some ''p2'') None)
             \<lparr> ITokenInsert.username := ''other'', ITokenInsert.type := ''admin'',
               expires_at := Some 9, created_at := 7 \<rparr>))
     = [(''s1'', ''admin'', 0)]"
  using scalars_from_first_row
    [of "[exampleRow ''s1'' (Some ''p1'') None,
          (exampleRow ''s1'' (Some ''p2'') None)
            \<lparr> ITokenInsert.username := ''other'', ITokenInsert.type := ''admin'',
              expires_at := Some 9, created_at := 7 \<rparr>]"
        "tokenRowReducer [] (exampleRow ''s1'' (Some ''p1'') None)"
        "(exampleRow ''s1'' (Some ''p2'') None)
            \<lparr> ITokenInsert.username := ''other'', ITokenInsert.type := ''admin'',
              expires_at := Some 9, created_at := 7 \<rparr>"]
  by (simp add: eval_toTokens)

section \<open>Claims about the token repository\<close>

text \<open>
  Claim C6. Whatever the storage does with the update, also when it answers with an
  error, \<^verbatim>\<open>markSeenAt\<close> returns normally: the caller never sees an error. A storage
  error leaves the tables as they were and adds one message to the log; nothing else
  records it.
\<close>

theorem markSeenAt_swallows_errors:
  "fst (markSeenAt update now st secrets) = Inr ()
   \<and> snd (markSeenAt update now st secrets) =
       (case update (fst st) secrets now of
          Inr db' \<Rightarrow> (db', snd st)
        | Inl err \<Rightarrow> (fst st, snd st @ [''Could not update lastSeen, error: '']))"
  by (simp add: markSeenAt_def split: sum.split)

text \<open>The example of the specification: a store that throws on update.\<close>

theorem markSeenAt_swallows_errors_witness:
  "markSeenAt (\<lambda>db secrets now. Inl StorageError) 1 (emptyTables, []) [''unknown-secret'']
     = (Inr (), emptyTables, [''Could not update lastSeen, error: ''])"
  using markSeenAt_swallows_errors
    [of "\<lambda>db secrets now. Inl StorageError" 1 "(emptyTables, [])" "[''unknown-secret'']"]
  by (simp add: prod_eq_iff)

lemma executeAll_rejected:
  "st \<in> set sts \<Longrightarrow> \<forall>d. rejects d st \<Longrightarrow> executeAll rejects now db sts = Inl StorageError"
proof (induction sts arbitrary: db)
  case Nil
  then show ?case by simp
next
  case (Cons a sts)
  show ?case
  proof (cases "rejects db a")
    case True
    then show ?thesis by (simp add: execute_def)
  next
    case False
    with Cons.prems have "st \<in> set sts" by auto
    with Cons.IH Cons.prems(2) False show ?thesis by (simp add: execute_def)
  qed
qed

lemma executeAll_append:
  "executeAll rejects now db (xs @ ys) =
     (case executeAll rejects now db xs of
        Inl e \<Rightarrow> Inl e
      | Inr db' \<Rightarrow> executeAll rejects now db' ys)"
  by (induction xs arbitrary: db) (simp_all split: sum.split)

lemma insert'_executeAll:
  "insert' AP rejects now db newToken =
     (case executeAll rejects now db (insertStatements AP newToken) of
        Inl e \<Rightarrow> (Inl e, db)
      | Inr db' \<Rightarrow>
          (Inr (IApiTokenCreate.extend newToken
                  (InsertedToken.fields
                     (joinedOrStar (IApiTokenCreate.projects newToken))
                     (joinedOrStar (IApiTokenCreate.environments newToken))
                     now)),
           db'))"
  by (simp add: insert'_def transaction_def insertStatements_def concreteProjects_def
      concreteEnvironments_def executeAll_append storedRow_def Let_def split: sum.split)

lemma insert'_rollback: "fst (insert' AP rejects now db newToken) = Inl e \<Longrightarrow>
   snd (insert' AP rejects now db newToken) = db"
  by (simp add: insert'_executeAll split: sum.splits)

text \<open>
  Claim C7. When \<^verbatim>\<open>insert\<close> fails, the tables are what they were before the call: no
  token row and no link row of the request remains, and a secret that was not stored
  before is not stored afterwards (\<^verbatim>\<open>exists\<close> answers false). It fails, with the
  storage's error, as soon as the storage rejects one of its statements, be it the token
  row or a link.
\<close>

theorem insert_atomic:
  "(\<forall>e. fst (insert' AP rejects now db newToken) = Inl e \<longrightarrow>
       snd (insert' AP rejects now db newToken) = db
       \<and> (\<not> exists db (IApiTokenCreate.secret newToken) \<longrightarrow>
            \<not> exists (snd (insert' AP rejects now db newToken)) (IApiTokenCreate.secret newToken)))
   \<and> ((\<exists>st\<in>set (insertStatements AP newToken). \<forall>d. rejects d st) \<longrightarrow>
        insert' AP rejects now db newToken = (Inl StorageError, db))"
proof (intro conjI allI impI)
  fix e assume f: "fst (insert' AP rejects now db newToken) = Inl e"
  then show r: "snd (insert' AP rejects now db newToken) = db" by (rule insert'_rollback)
  assume "\<not> exists db (IApiTokenCreate.secret newToken)"
  with r show "\<not> exists (snd (insert' AP rejects now db newToken)) (IApiTokenCreate.secret newToken)"
    by simp
next
  assume "\<exists>st\<in>set (insertStatements AP newToken). \<forall>d. rejects d st"
  then obtain st where "st \<in> set (insertStatements AP newToken)" and "\<forall>d. rejects d st" by blast
  then have "executeAll rejects now db (insertStatements AP newToken) = Inl StorageError"
    by (rule executeAll_rejected)
  then show "insert' AP rejects now db newToken = (Inl StorageError, db)"
    by (simp add: insert'_executeAll)
qed

text \<open>
  The theorem on empty tables, with a storage that rejects the link of the second
  project.
\<close>

theorem insert_atomic_witness:
  "InsertProjectLink ''s1'' ''p2''
     \<in> set (insertStatements ''*'' (exampleRequest ''s1'' (Some [''p1'', ''p2'']) (Some [''e1''])))
   \<and> insert' ''*'' (\<lambda>d st. st = InsertProjectLink ''s1'' ''p2'') 5 emptyTables
        (exampleRequest ''s1'' (Some [''p1'', ''p2'']) (Some [''e1'']))
      = (Inl StorageError, emptyTables)
   \<and> exists (snd (insert' ''*'' (\<lambda>d st. st = InsertProjectLink ''s1'' ''p2'') 5 emptyTables
        (exampleRequest ''s1'' (Some [''p1'', ''p2'']) (Some [''e1''])))) ''s1'' = False"
proof -
  let ?req = "exampleRequest ''s1'' (Some [''p1'', ''p2'']) (Some [''e1''])"
  let ?rej = "\<lambda>(d :: Tables) st. st = InsertProjectLink ''s1'' ''p2''"
  have m: "InsertProjectLink ''s1'' ''p2'' \<in> set (insertStatements ''*'' ?req)"
    by (simp add: insertStatements_def concreteProjects_def exampleRequest_def)
  then have h: "\<exists>st\<in>set (insertStatements ''*'' ?req). \<forall>d. ?rej d st" by blast
  have s: "IApiTokenCreate.secret ?req = ''s1''" by (simp add: exampleRequest_def)
  have n: "\<not> exists emptyTables ''s1''" by (simp add: exists_def emptyTables_def)
  from insert_atomic [of "''*''" ?rej 5 emptyTables ?req] h
  have r: "insert' ''*'' ?rej 5 emptyTables ?req = (Inl StorageError, emptyTables)" by blast
  with m n show ?thesis by simp
qed

lemma leftJoin_nonempty [simp]: "leftJoin s link \<noteq> []"
  by (simp add: leftJoin_def split: list.split)


lemma rowsOfToken_nonempty [simp]: "rowsOfToken db t \<noteq> []"
proof -
  obtain p ps where p: "leftJoin (ITokenInsert.secret t) (api_token_project db) = p # ps"
    by (cases "leftJoin (ITokenInsert.secret t) (api_token_project db)") simp_all
  obtain e es where e: "leftJoin (ITokenInsert.secret t) (api_token_environment db) = e # es"
    by (cases "leftJoin (ITokenInsert.secret t) (api_token_environment db)") simp_all
  show ?thesis by (simp add: rowsOfToken_def p e)
qed

lemma joinedRow_fields [simp]:
  "ITokenInsert.secret (joinedRow t p e) = ITokenInsert.secret t"
  "ITokenInsert.username (joinedRow t p e) = ITokenInsert.username t"
  "ITokenInsert.type (joinedRow t p e) = ITokenInsert.type t"
  "ITokenInsert.expires_at (joinedRow t p e) = ITokenInsert.expires_at t"
  "created_at (joinedRow t p e) = created_at t"
  "ITokenRow.project (joinedRow t p e) = p"
  "ITokenRow.environment (joinedRow t p e) = e"
  by (simp_all add: joinedRow_def)













lemma secret_updateExpiresAt [simp]:
  "ITokenInsert.secret (updateExpiresAt s e t) = ITokenInsert.secret t"
  by (simp add: updateExpiresAt_def)


























lemma linked_Nil [simp]: "linked [] = [None]"
  by (simp add: linked_def)









lemma secret_storedRow [simp]:
  "ITokenInsert.secret (storedRow now (toRow newToken)) = IApiTokenCreate.secret newToken"
  by (simp add: storedRow_def toRow_def)













end
